theory Spec2Isabelle
  imports Main "HOL-Library.Word"
begin

unbundle bit_operations_syntax

section \<open>The output tree\<close>

text \<open>
  Modelled from the spec: the module \<^verbatim>\<open>../output/output_ast\<close>, whose node classes the
  factory synthesizer instantiates, is not among the sources; the spec only calls its values
  "tree fragments (an expression plus a declared type)". Each node class that
  \<^verbatim>\<open>r3_factory.ts\<close> names is a free constructor here, carrying the arguments the synthesizer
  passes to it (source spans and type annotations that are never set are left out).
  An argument array of \<^verbatim>\<open>InstantiateExpr\<close> and \<^verbatim>\<open>InvokeFunctionExpr\<close> is a list of optional
  expressions: \<open>None\<close> is the JavaScript value \<^verbatim>\<open>undefined\<close> sitting in a slot of the array.
\<close>

text \<open>
  Modelled from the spec: the members of \<^verbatim>\<open>Identifiers\<close> in \<^verbatim>\<open>../render3/r3_identifiers\<close>
  (not among the sources) that \<^verbatim>\<open>r3_factory.ts\<close> refers to, as symbolic names.
\<close>

datatype ExternalReference =
    R3_invalidFactory
  | R3_invalidFactoryDep
  | R3_getInheritedFactory
  | R3_FactoryDeclaration
  | R3_directiveInject
  | R3_inject

datatype BinaryOperator = Or

datatype LiteralValue = LitNull | LitBool bool | LitNumber int

datatype Expression =
    ReadVarExpr string
  | WriteVarExpr string Expression
  | BinaryOperatorExpr BinaryOperator Expression Expression
  | InstantiateExpr Expression "Expression option list"
  | InvokeFunctionExpr Expression "Expression option list" bool
  | ExternalExpr ExternalReference "Type list option"
  | LiteralExpr LiteralValue
  | LiteralArrayExpr "Expression list"
  | LiteralMapExpr "LiteralMapEntry list"
  | FunctionExpr "FnParam list" "Statement list" "Type option" "string option"
and Type =
    ExpressionType Expression "Type list option"
  | NONE_TYPE
  | DYNAMIC_TYPE
  | INFERRED_TYPE
and Statement =
    DeclareVarStmt string "Expression option"
  | ExpressionStatement Expression
  | IfStmt Expression "Statement list" "Statement list"
  | ReturnStatement Expression
and LiteralMapEntry =
    LiteralMapEntry string Expression bool
and FnParam =
    FnParam string Type

text \<open>The helper functions of \<^verbatim>\<open>output_ast\<close> that the synthesizer calls.\<close>

definition variable :: "string \<Rightarrow> Expression" where
  "variable name = ReadVarExpr name"

definition NULL_EXPR :: Expression where
  "NULL_EXPR = LiteralExpr LitNull"

definition literal :: "LiteralValue \<Rightarrow> Expression" where
  "literal v = LiteralExpr v"

definition importExpr :: "ExternalReference \<Rightarrow> Expression" where
  "importExpr ref = ExternalExpr ref None"

definition importExprWithParams :: "ExternalReference \<Rightarrow> Type list \<Rightarrow> Expression" where
  \<comment> \<open>\<^verbatim>\<open>importExpr(id, typeParams)\<close>\<close>
  "importExprWithParams ref typeParams = ExternalExpr ref (Some typeParams)"

definition expressionType :: "Expression \<Rightarrow> Type" where
  "expressionType e = ExpressionType e None"

definition callFn :: "Expression \<Rightarrow> Expression option list \<Rightarrow> Expression" where
  \<comment> \<open>\<^verbatim>\<open>fn.callFn(params)\<close>: an impure call\<close>
  "callFn f params = InvokeFunctionExpr f params False"

definition callFnPure :: "Expression \<Rightarrow> Expression option list \<Rightarrow> Expression" where
  \<comment> \<open>\<^verbatim>\<open>fn.callFn(params, undefined, true)\<close>\<close>
  "callFnPure f params = InvokeFunctionExpr f params True"

definition setVar :: "string \<Rightarrow> Expression \<Rightarrow> Expression" where
  \<comment> \<open>\<^verbatim>\<open>variable(name).set(value)\<close>\<close>
  "setVar name v = WriteVarExpr name v"

definition toStmt :: "Expression \<Rightarrow> Statement" where
  "toStmt e = ExpressionStatement e"

definition toDeclStmt :: "string \<Rightarrow> Expression \<Rightarrow> Statement" where
  \<comment> \<open>\<^verbatim>\<open>variable(name).set(value).toDeclStmt()\<close>\<close>
  "toDeclStmt name v = DeclareVarStmt name (Some v)"

definition ifStmt :: "Expression \<Rightarrow> Statement list \<Rightarrow> Statement list \<Rightarrow> Statement" where
  "ifStmt c thenClause elseClause = IfStmt c thenClause elseClause"

definition literalArr :: "Expression list \<Rightarrow> Expression" where
  "literalArr vs = LiteralArrayExpr vs"

definition literalMap :: "(string \<times> bool \<times> Expression) list \<Rightarrow> Expression" where
  \<comment> \<open>an entry is (key, quoted, value)\<close>
  "literalMap entries =
     LiteralMapExpr (map (\<lambda>(k, q, v). LiteralMapEntry k v q) entries)"

definition fn ::
  "FnParam list \<Rightarrow> Statement list \<Rightarrow> Type option \<Rightarrow> string option \<Rightarrow> Expression" where
  \<comment> \<open>\<^verbatim>\<open>fn(params, body, type, sourceSpan, name)\<close>; \<open>None\<close> is an argument left out\<close>
  "fn params body ty name = FunctionExpr params body ty name"

section \<open>Factory metadata (r3_factory.ts)\<close>

text \<open>
  The enum \<^verbatim>\<open>InjectFlags\<close> of \<^verbatim>\<open>../core\<close> is not among the sources. Its members are a
  parameter of the model: the 32-bit integers that the bitwise operator \<^verbatim>\<open>|\<close> sees.
\<close>

record InjectFlags =
  Default :: "32 word"
  Self :: "32 word"
  SkipSelf :: "32 word"
  Optional :: "32 word"

record R3Reference =
  r3_value :: Expression
  r3_type :: Expression

datatype FactoryTarget = Directive | Component | Injectable | Pipe | NgModule

datatype R3FactoryDelegateType = Class | Function

record R3DependencyMetadata =
  token :: "Expression option"
  attributeNameType :: "Expression option"
  optional :: bool
  self :: bool
  skipSelf :: bool

text \<open>The field \<^verbatim>\<open>deps: R3DependencyMetadata[] | 'invalid' | null\<close>.\<close>

datatype R3Deps =
    DepsList "R3DependencyMetadata list"
  | DepsInvalid
  | DepsNull

record R3ConstructorFactoryMetadata =
  name :: string
  type :: R3Reference
  internalType :: Expression
  typeArgumentCount :: nat
  deps :: R3Deps
  target :: FactoryTarget

record R3DelegatedFnOrClassMetadata = R3ConstructorFactoryMetadata +
  delegate :: Expression
  delegateType :: R3FactoryDelegateType
  delegateDeps :: "R3DependencyMetadata list"

record R3ExpressionFactoryMetadata = R3ConstructorFactoryMetadata +
  expression :: Expression

datatype R3FactoryMetadata =
    ConstructorFactory R3ConstructorFactoryMetadata
  | DelegatedFactory R3DelegatedFnOrClassMetadata
  | ExpressionFactory R3ExpressionFactoryMetadata

record R3CompiledExpression =
  compiled_expression :: Expression
  compiled_statements :: "Statement list"
  compiled_type :: Type

fun common :: "R3FactoryMetadata \<Rightarrow> R3ConstructorFactoryMetadata" where
  "common (ConstructorFactory m) = m"
| "common (DelegatedFactory m) = R3ConstructorFactoryMetadata.truncate m"
| "common (ExpressionFactory m) = R3ConstructorFactoryMetadata.truncate m"

fun isDelegatedFactoryMetadata :: "R3FactoryMetadata \<Rightarrow> bool" where
  "isDelegatedFactoryMetadata (DelegatedFactory m) = True"
| "isDelegatedFactoryMetadata _ = False"

fun isExpressionFactoryMetadata :: "R3FactoryMetadata \<Rightarrow> bool" where
  "isExpressionFactoryMetadata (ExpressionFactory m) = True"
| "isExpressionFactoryMetadata _ = False"

fun getInjectFn :: "FactoryTarget \<Rightarrow> ExternalReference" where
  "getInjectFn Component = R3_directiveInject"
| "getInjectFn Directive = R3_directiveInject"
| "getInjectFn Pipe = R3_directiveInject"
| "getInjectFn NgModule = R3_inject"
| "getInjectFn Injectable = R3_inject"

text \<open>
  \<^verbatim>\<open>compileInjectDependency\<close> has three cases in the source and a \<^verbatim>\<open>return\<close> in two of
  them: with a token and an attribute name type, control reaches the end of the function,
  whose value is then \<^verbatim>\<open>undefined\<close> (\<open>None\<close>).
\<close>

definition compileInjectDependency ::
  "InjectFlags \<Rightarrow> R3DependencyMetadata \<Rightarrow> FactoryTarget \<Rightarrow> nat \<Rightarrow> Expression option" where
  "compileInjectDependency fl dep tgt index =
     (case token dep of
        None \<Rightarrow>
          Some (callFn (importExpr R3_invalidFactoryDep)
                  [Some (literal (LitNumber (int index)))])
      | Some tok \<Rightarrow>
          (case attributeNameType dep of
             None \<Rightarrow>
               (let flags = Default fl
                      OR (if self dep then Self fl else 0)
                      OR (if skipSelf dep then SkipSelf fl else 0)
                      OR (if optional dep then Optional fl else 0);
                    flagsParam =
                      (if flags \<noteq> Default fl \<or> optional dep
                       then Some (literal (LitNumber (sint flags))) else None);
                    injectArgs =
                      [Some tok] @ (case flagsParam of Some p \<Rightarrow> [Some p] | None \<Rightarrow> []);
                    injectFn = getInjectFn tgt
                in Some (callFn (importExpr injectFn) injectArgs))
           | Some a \<Rightarrow> None))"

definition injectDependencies ::
  "InjectFlags \<Rightarrow> R3DependencyMetadata list \<Rightarrow> FactoryTarget \<Rightarrow> Expression option list" where
  "injectDependencies fl ds tgt =
     map (\<lambda>(index, dep). compileInjectDependency fl dep tgt index) (enumerate 0 ds)"

definition createCtorDepType :: "R3DependencyMetadata \<Rightarrow> Expression option" where
  "createCtorDepType dep =
     (let entries0 = [];
          entries1 = (if optional dep
                      then entries0 @ [(''optional'', False, literal (LitBool True))]
                      else entries0);
          entries2 = (if self dep
                      then entries1 @ [(''self'', False, literal (LitBool True))]
                      else entries1);
          entries3 = (if skipSelf dep
                      then entries2 @ [(''skipSelf'', False, literal (LitBool True))]
                      else entries2)
      in if length entries3 > 0 then Some (literalMap entries3) else None)"

text \<open>
  \<^verbatim>\<open>createCtorDepsType\<close> maps over the dependencies with a callback that sets the variable
  \<^verbatim>\<open>hasTypes\<close>: the state of the loop is that variable and the array built so far.
\<close>

definition ctorDepsStep ::
  "R3DependencyMetadata \<Rightarrow> bool \<times> Expression list \<Rightarrow> bool \<times> Expression list" where
  "ctorDepsStep dep st =
     (case createCtorDepType dep of
        Some ty \<Rightarrow> (True, snd st @ [ty])
      | None \<Rightarrow> (fst st, snd st @ [literal LitNull]))"

definition createCtorDepsType :: "R3DependencyMetadata list \<Rightarrow> Type" where
  "createCtorDepsType ds =
     (let (hasTypes, attributeTypes) = fold ctorDepsStep ds (False, [])
      in if hasTypes then expressionType (literalArr attributeTypes) else NONE_TYPE)"

text \<open>
  \<^verbatim>\<open>typeWithParameters\<close> of \<^verbatim>\<open>./util\<close> is not among the sources: it is the parameter \<open>twp\<close>.
\<close>

definition createFactoryType ::
  "(Expression \<Rightarrow> nat \<Rightarrow> Type) \<Rightarrow> R3FactoryMetadata \<Rightarrow> Type" where
  "createFactoryType twp meta =
     (let m = common meta;
          ctorDepsType = (case deps m of
                            DepsList ds \<Rightarrow> createCtorDepsType ds
                          | DepsInvalid \<Rightarrow> NONE_TYPE
                          | DepsNull \<Rightarrow> NONE_TYPE)
      in expressionType
           (importExprWithParams R3_FactoryDeclaration
              [twp (r3_type (type m)) (typeArgumentCount m), ctorDepsType]))"

text \<open>
  The closure \<^verbatim>\<open>makeConditionalFactory\<close> reads \<^verbatim>\<open>ctorExpr\<close> and \<^verbatim>\<open>t\<close> and pushes two
  statements onto \<^verbatim>\<open>body\<close>: it takes them as arguments and returns the new body with the
  variable \<^verbatim>\<open>r\<close>.
\<close>

definition makeConditionalFactory ::
  "Expression option \<Rightarrow> Expression \<Rightarrow> Statement list \<Rightarrow> Expression
     \<Rightarrow> Statement list \<times> Expression" where
  "makeConditionalFactory ctorExpr t body nonCtorExpr =
     (let r = ''r'';
          body1 = body @ [toDeclStmt r NULL_EXPR];
          ctorStmt = (case ctorExpr of
                        Some c \<Rightarrow> toStmt (setVar r c)
                      | None \<Rightarrow> toStmt (callFn (importExpr R3_invalidFactory) []));
          body2 = body1 @ [ifStmt t [ctorStmt] [toStmt (setVar r nonCtorExpr)]]
      in (body2, variable r))"

text \<open>
  The name of the memo variable starts with the letter U+0275, here its two UTF-8 bytes.
\<close>

definition baseFactoryName :: "string \<Rightarrow> string" where
  "baseFactoryName n = [CHR 0xC9, CHR 0xB5] @ n @ ''_BaseFactory''"

text \<open>
  In \<^verbatim>\<open>compileFactoryFunction\<close> the tests \<^verbatim>\<open>isDelegatedFactoryMetadata(meta)\<close> and then
  \<^verbatim>\<open>isExpressionFactoryMetadata(meta)\<close>, which give access to the fields of the variant,
  are the case distinction on \<open>meta\<close>. The two assignments to \<^verbatim>\<open>baseFactoryVar\<close> and
  \<^verbatim>\<open>ctorExpr\<close> are one pair; \<^verbatim>\<open>body\<close> is threaded through the pushes.
\<close>

definition compileFactoryFunction ::
  "InjectFlags \<Rightarrow> (Expression \<Rightarrow> nat \<Rightarrow> Type) \<Rightarrow> R3FactoryMetadata \<Rightarrow> R3CompiledExpression" where
  "compileFactoryFunction fl twp meta =
     (let m = common meta;
          t = variable ''t'';
          typeForCtor = (if \<not> isDelegatedFactoryMetadata meta
                         then BinaryOperatorExpr Or t (internalType m)
                         else t);
          (baseFactoryVar, ctorExpr) =
             (case deps m of
                DepsList ds \<Rightarrow>
                  (None, Some (InstantiateExpr typeForCtor (injectDependencies fl ds (target m))))
              | DepsInvalid \<Rightarrow> (None, None)
              | DepsNull \<Rightarrow>
                  (let v = baseFactoryName (name m)
                   in (Some v, Some (callFn (variable v) [Some typeForCtor]))));
          (body1, retExpr) =
             (case meta of
                DelegatedFactory d \<Rightarrow>
                  (let delegateArgs = injectDependencies fl (delegateDeps d) (target m);
                       factoryExpr = (case delegateType d of
                                        Class \<Rightarrow> InstantiateExpr (delegate d) delegateArgs
                                      | Function \<Rightarrow>
                                          InvokeFunctionExpr (delegate d) delegateArgs False);
                       (b, r) = makeConditionalFactory ctorExpr t [] factoryExpr
                   in (b, Some r))
              | ExpressionFactory e \<Rightarrow>
                  (let (b, r) = makeConditionalFactory ctorExpr t [] (expression e)
                   in (b, Some r))
              | ConstructorFactory c \<Rightarrow> ([], ctorExpr));
          body2 =
             (case retExpr of
                None \<Rightarrow> body1 @ [toStmt (callFn (importExpr R3_invalidFactory) [])]
              | Some re \<Rightarrow>
                  (case baseFactoryVar of
                     Some bf \<Rightarrow>
                       (let getInheritedFactoryCall =
                              callFn (importExpr R3_getInheritedFactory) [Some (internalType m)];
                            baseFactory =
                              BinaryOperatorExpr Or (variable bf) (setVar bf getInheritedFactoryCall)
                        in body1 @ [ReturnStatement (callFn baseFactory [Some typeForCtor])])
                   | None \<Rightarrow> body1 @ [ReturnStatement re]));
          factoryFn0 = fn [FnParam ''t'' DYNAMIC_TYPE] body2 (Some INFERRED_TYPE)
                          (Some (name m @ ''_Factory''));
          factoryFn = (case baseFactoryVar of
                         Some bf \<Rightarrow>
                           callFnPure
                             (fn [] [DeclareVarStmt bf None, ReturnStatement factoryFn0]
                                 None None)
                             []
                       | None \<Rightarrow> factoryFn0)
      in \<lparr> compiled_expression = factoryFn,
           compiled_statements = [],
           compiled_type = createFactoryType twp meta \<rparr>)"

section \<open>Decorators (host.ts)\<close>

text \<open>
  \<^verbatim>\<open>Decorator = ConcreteDecorator | SyntheticDecorator\<close>: the two interfaces extend
  \<^verbatim>\<open>BaseDecorator\<close> (name, identifier, import, node, args). A concrete decorator narrows
  \<^verbatim>\<open>identifier\<close> and \<^verbatim>\<open>node\<close> to non-null types; a synthetic one narrows both to \<^verbatim>\<open>null\<close>
  and adds \<^verbatim>\<open>synthesizedFor\<close>. The types of identifiers, nodes, imports and arguments
  (\<^verbatim>\<open>ts.Node\<close> and others) are parameters. The constructors carry the fields that hold a
  value; the accessors below read a field of either variant, \<open>None\<close> for \<^verbatim>\<open>null\<close> or a
  field the variant does not have.
\<close>

datatype ('id, 'node, 'imp, 'arg) Decorator =
    ConcreteDecorator string 'id "'imp option" 'node "'arg list option"
      \<comment> \<open>name, identifier, import, node, args\<close>
  | SyntheticDecorator string "'imp option" "'arg list option" 'node
      \<comment> \<open>name, import, args, synthesizedFor\<close>

fun decorator_identifier :: "('id, 'node, 'imp, 'arg) Decorator \<Rightarrow> 'id option" where
  "decorator_identifier (ConcreteDecorator n i imp nd a) = Some i"
| "decorator_identifier (SyntheticDecorator n imp a s) = None"

fun decorator_node :: "('id, 'node, 'imp, 'arg) Decorator \<Rightarrow> 'node option" where
  "decorator_node (ConcreteDecorator n i imp nd a) = Some nd"
| "decorator_node (SyntheticDecorator n imp a s) = None"

fun decorator_synthesizedFor :: "('id, 'node, 'imp, 'arg) Decorator \<Rightarrow> 'node option" where
  "decorator_synthesizedFor (ConcreteDecorator n i imp nd a) = None"
| "decorator_synthesizedFor (SyntheticDecorator n imp a s) = Some s"

text \<open>
  \<^verbatim>\<open>Decorator.nodeForError\<close> tests \<^verbatim>\<open>decorator.node !== null\<close> and otherwise reads
  \<^verbatim>\<open>synthesizedFor\<close> through a cast; its result is optional here so that a missing field
  would show.
\<close>

definition nodeForError :: "('id, 'node, 'imp, 'arg) Decorator \<Rightarrow> 'node option" where
  "nodeForError decorator =
     (case decorator_node decorator of
        Some n \<Rightarrow> Some n
      | None \<Rightarrow> decorator_synthesizedFor decorator)"







section \<open>Observations on the synthesized trees\<close>

text \<open>The function that a compiled dependency calls, when it is a call of an imported name.\<close>

fun injectionEntryPoint :: "Expression option \<Rightarrow> ExternalReference option" where
  "injectionEntryPoint (Some (InvokeFunctionExpr (ExternalExpr ref tps) args pure)) = Some ref"
| "injectionEntryPoint _ = None"

text \<open>
  Whether a factory function has a conditional on the override parameter \<^verbatim>\<open>t\<close> whose
  first branch assigns an instantiation of \<^verbatim>\<open>t\<close> (the direct-constructor expression).
\<close>

fun factoryBody :: "Expression \<Rightarrow> Statement list" where
  "factoryBody (FunctionExpr ps body ty nm) = body"
| "factoryBody _ = []"

fun assignsDirectCtor :: "Statement \<Rightarrow> bool" where
  "assignsDirectCtor (ExpressionStatement (WriteVarExpr r (InstantiateExpr c args))) =
     (c = ReadVarExpr ''t'')"
| "assignsDirectCtor _ = False"

fun overrideSelectsCtor :: "Statement \<Rightarrow> bool" where
  "overrideSelectsCtor (IfStmt c [s] el) = (c = ReadVarExpr ''t'' \<and> assignsDirectCtor s)"
| "overrideSelectsCtor _ = False"

definition selectsDirectCtorOnOverride :: "Expression \<Rightarrow> bool" where
  "selectsDirectCtorOnOverride e = list_ex overrideSelectsCtor (factoryBody e)"

text \<open>
  The constructor dependency type in the words of the specification: an array that mirrors
  the dependency list, a dependency being a record of its true qualifier flags, or a null
  placeholder when it has no qualifier.
\<close>

definition hasQualifier :: "R3DependencyMetadata \<Rightarrow> bool" where
  "hasQualifier dep = (optional dep \<or> self dep \<or> skipSelf dep)"

definition qualifierRecord :: "R3DependencyMetadata \<Rightarrow> Expression" where
  "qualifierRecord dep =
     LiteralMapExpr
       (map (\<lambda>key. LiteralMapEntry key (LiteralExpr (LitBool True)) False)
          (map fst (filter snd
             [(''optional'', optional dep), (''self'', self dep), (''skipSelf'', skipSelf dep)])))"

definition depPlaceholder :: "R3DependencyMetadata \<Rightarrow> Expression" where
  "depPlaceholder dep = (if hasQualifier dep then qualifierRecord dep else LiteralExpr LitNull)"

definition ctorDepsArray :: "R3DependencyMetadata list \<Rightarrow> Type" where
  "ctorDepsArray ds = ExpressionType (LiteralArrayExpr (map depPlaceholder ds)) None"

text \<open>
  The number of nodes of a tree that satisfy a predicate: \<open>pe\<close> is asked of every
  expression in it and \<open>ps\<close> of every statement; \<open>None\<close> in an argument array counts
  for nothing.
\<close>

definition definedOr0 :: "nat option \<Rightarrow> nat" where
  "definedOr0 v = (case v of None \<Rightarrow> 0 | Some k \<Rightarrow> k)"

primrec nodesE :: "(Expression \<Rightarrow> bool) \<Rightarrow> (Statement \<Rightarrow> bool) \<Rightarrow> Expression \<Rightarrow> nat"
  and nodesT :: "(Expression \<Rightarrow> bool) \<Rightarrow> (Statement \<Rightarrow> bool) \<Rightarrow> Type \<Rightarrow> nat"
  and nodesS :: "(Expression \<Rightarrow> bool) \<Rightarrow> (Statement \<Rightarrow> bool) \<Rightarrow> Statement \<Rightarrow> nat"
  and nodesM :: "(Expression \<Rightarrow> bool) \<Rightarrow> (Statement \<Rightarrow> bool) \<Rightarrow> LiteralMapEntry \<Rightarrow> nat"
  and nodesP :: "(Expression \<Rightarrow> bool) \<Rightarrow> (Statement \<Rightarrow> bool) \<Rightarrow> FnParam \<Rightarrow> nat" where
  "nodesE pe ps (ReadVarExpr n) = of_bool (pe (ReadVarExpr n))"
| "nodesE pe ps (WriteVarExpr n v) = of_bool (pe (WriteVarExpr n v)) + nodesE pe ps v"
| "nodesE pe ps (BinaryOperatorExpr op l r) =
     of_bool (pe (BinaryOperatorExpr op l r)) + nodesE pe ps l + nodesE pe ps r"
| "nodesE pe ps (InstantiateExpr c args) =
     of_bool (pe (InstantiateExpr c args)) + nodesE pe ps c
       + sum_list (map definedOr0 (map (map_option (nodesE pe ps)) args))"
| "nodesE pe ps (InvokeFunctionExpr f args p) =
     of_bool (pe (InvokeFunctionExpr f args p)) + nodesE pe ps f
       + sum_list (map definedOr0 (map (map_option (nodesE pe ps)) args))"
| "nodesE pe ps (ExternalExpr r tps) =
     of_bool (pe (ExternalExpr r tps))
       + definedOr0 (map_option sum_list (map_option (map (nodesT pe ps)) tps))"
| "nodesE pe ps (LiteralExpr v) = of_bool (pe (LiteralExpr v))"
| "nodesE pe ps (LiteralArrayExpr es) =
     of_bool (pe (LiteralArrayExpr es)) + sum_list (map (nodesE pe ps) es)"
| "nodesE pe ps (LiteralMapExpr ms) =
     of_bool (pe (LiteralMapExpr ms)) + sum_list (map (nodesM pe ps) ms)"
| "nodesE pe ps (FunctionExpr params body ty nm) =
     of_bool (pe (FunctionExpr params body ty nm))
       + sum_list (map (nodesP pe ps) params) + sum_list (map (nodesS pe ps) body)
       + definedOr0 (map_option (nodesT pe ps) ty)"
| "nodesT pe ps (ExpressionType e tps) =
     nodesE pe ps e + definedOr0 (map_option sum_list (map_option (map (nodesT pe ps)) tps))"
| "nodesT pe ps NONE_TYPE = 0"
| "nodesT pe ps DYNAMIC_TYPE = 0"
| "nodesT pe ps INFERRED_TYPE = 0"
| "nodesS pe ps (DeclareVarStmt n v) =
     of_bool (ps (DeclareVarStmt n v)) + definedOr0 (map_option (nodesE pe ps) v)"
| "nodesS pe ps (ExpressionStatement e) =
     of_bool (ps (ExpressionStatement e)) + nodesE pe ps e"
| "nodesS pe ps (IfStmt c th el) =
     of_bool (ps (IfStmt c th el)) + nodesE pe ps c
       + sum_list (map (nodesS pe ps) th) + sum_list (map (nodesS pe ps) el)"
| "nodesS pe ps (ReturnStatement e) = of_bool (ps (ReturnStatement e)) + nodesE pe ps e"
| "nodesM pe ps (LiteralMapEntry k e q) = nodesE pe ps e"
| "nodesP pe ps (FnParam n t) = nodesT pe ps t"

fun isInstantiateExpr :: "Expression \<Rightarrow> bool" where
  "isInstantiateExpr (InstantiateExpr c args) = True"
| "isInstantiateExpr _ = False"

fun isIfStmt :: "Statement \<Rightarrow> bool" where
  "isIfStmt (IfStmt c th el) = True"
| "isIfStmt _ = False"

fun isInheritedFactoryRef :: "Expression \<Rightarrow> bool" where
  "isInheritedFactoryRef (ExternalExpr r tps) = (r = R3_getInheritedFactory)"
| "isInheritedFactoryRef _ = False"

definition inheritedFactoryRefs :: "Expression \<Rightarrow> nat" where
  "inheritedFactoryRefs e = nodesE isInheritedFactoryRef (\<lambda>s. False) e"

text \<open>
  The expressions of a metadata value that the synthesizer copies into the factory when
  \<^verbatim>\<open>deps\<close> is \<^verbatim>\<open>null\<close>: the internal type and, by variant, the delegate with the tokens of
  its dependencies, or the expression.
\<close>

definition tokens :: "R3DependencyMetadata list \<Rightarrow> Expression list" where
  "tokens ds = concat (map (\<lambda>d. case token d of None \<Rightarrow> [] | Some e \<Rightarrow> [e]) ds)"

fun suppliedExpressions :: "R3FactoryMetadata \<Rightarrow> Expression list" where
  "suppliedExpressions (ConstructorFactory c) = [internalType c]"
| "suppliedExpressions (DelegatedFactory d) =
     internalType d # delegate d # tokens (delegateDeps d)"
| "suppliedExpressions (ExpressionFactory e) = [internalType e, expression e]"

text \<open>
  The names that belong to the scope of a function expression itself: its parameters and
  the variables that its statements declare, also under a conditional, but not inside a
  nested function.
\<close>

primrec declaredNames :: "Statement \<Rightarrow> string list" where
  "declaredNames (DeclareVarStmt n v) = [n]"
| "declaredNames (ExpressionStatement e) = []"
| "declaredNames (IfStmt c th el) =
     concat (map declaredNames th) @ concat (map declaredNames el)"
| "declaredNames (ReturnStatement e) = []"

fun paramName :: "FnParam \<Rightarrow> string" where
  "paramName (FnParam n ty) = n"

fun scopeNames :: "Expression \<Rightarrow> string list" where
  "scopeNames (FunctionExpr params body ty nm) =
     map paramName params @ concat (map declaredNames body)"
| "scopeNames _ = []"

text \<open>
  The closure of an immediately invoked function expression without arguments, and the
  function expression that the last statement of a function returns.
\<close>

fun invokedClosure :: "Expression \<Rightarrow> Expression option" where
  "invokedClosure (InvokeFunctionExpr (FunctionExpr params body ty nm) [] pure) =
     Some (FunctionExpr params body ty nm)"
| "invokedClosure _ = None"

fun returnedBy :: "Statement \<Rightarrow> Expression option" where
  "returnedBy (ReturnStatement (FunctionExpr params body ty nm)) =
     Some (FunctionExpr params body ty nm)"
| "returnedBy _ = None"

fun returnedFunction :: "Expression \<Rightarrow> Expression option" where
  "returnedFunction (FunctionExpr params body ty nm) =
     (if body = [] then None else returnedBy (last body))"
| "returnedFunction _ = None"

text \<open>
  The nodes of a tree that read the variable \<open>v\<close> and those that assign to it.
\<close>

fun isReadOf :: "string \<Rightarrow> Expression \<Rightarrow> bool" where
  "isReadOf v (ReadVarExpr w) = (w = v)"
| "isReadOf v _ = False"

fun isWriteOf :: "string \<Rightarrow> Expression \<Rightarrow> bool" where
  "isWriteOf v (WriteVarExpr w e) = (w = v)"
| "isWriteOf v _ = False"

definition readsOf :: "string \<Rightarrow> Expression \<Rightarrow> nat" where
  "readsOf v e = nodesE (isReadOf v) (\<lambda>s. False) e"

definition writesOf :: "string \<Rightarrow> Expression \<Rightarrow> nat" where
  "writesOf v e = nodesE (isWriteOf v) (\<lambda>s. False) e"

text \<open>
  Whether a function has a conditional on the override parameter \<^verbatim>\<open>t\<close> whose first branch
  assigns the result of calling the variable \<open>v\<close> itself, read bare, as opposed to the
  memoizing expression \<^verbatim>\<open>v || (v = getInheritedFactory(...))\<close>.
\<close>

fun assignsBareCallOf :: "string \<Rightarrow> Statement \<Rightarrow> bool" where
  "assignsBareCallOf v
     (ExpressionStatement (WriteVarExpr r (InvokeFunctionExpr (ReadVarExpr w) args pure))) =
     (w = v)"
| "assignsBareCallOf v _ = False"

fun overrideCallsBare :: "string \<Rightarrow> Statement \<Rightarrow> bool" where
  "overrideCallsBare v (IfStmt c [s] el) = (c = ReadVarExpr ''t'' \<and> assignsBareCallOf v s)"
| "overrideCallsBare v _ = False"

definition callsBareOnOverride :: "string \<Rightarrow> Expression \<Rightarrow> bool" where
  "callsBareOnOverride v f = list_ex (overrideCallsBare v) (factoryBody f)"

section \<open>Instances\<close>

text \<open>
  An instance of each parameter of the model and some metadata values, on which the
  theorems below are run: flags with an empty default mask and one bit per qualifier, and a
  \<^verbatim>\<open>typeWithParameters\<close> that puts \<open>numParams\<close> dynamic type parameters on the type.
\<close>

definition exampleInjectFlags :: InjectFlags where
  "exampleInjectFlags = \<lparr> Default = 0, Self = 2, SkipSelf = 4, Optional = 8 \<rparr>"

definition exampleTypeWithParameters :: "Expression \<Rightarrow> nat \<Rightarrow> Type" where
  "exampleTypeWithParameters ty numParams =
     (if numParams = 0 then ExpressionType ty None
      else ExpressionType ty (Some (replicate numParams DYNAMIC_TYPE)))"

definition plainDep :: "Expression \<Rightarrow> R3DependencyMetadata" where
  "plainDep tok = \<lparr> token = Some tok, attributeNameType = None,
                    optional = False, self = False, skipSelf = False \<rparr>"

definition selfDep :: "Expression \<Rightarrow> R3DependencyMetadata" where
  "selfDep tok = \<lparr> token = Some tok, attributeNameType = None,
                   optional = False, self = True, skipSelf = False \<rparr>"

definition attributeDep :: "Expression \<Rightarrow> R3DependencyMetadata" where
  "attributeDep tok = \<lparr> token = Some tok, attributeNameType = Some (ReadVarExpr ''string''),
                        optional = False, self = False, skipSelf = False \<rparr>"

definition unresolvedDep :: R3DependencyMetadata where
  "unresolvedDep = \<lparr> token = None, attributeNameType = None,
                     optional = False, self = False, skipSelf = False \<rparr>"

definition exampleMeta :: "R3Deps \<Rightarrow> R3ConstructorFactoryMetadata" where
  "exampleMeta ds =
     \<lparr> name = ''Svc'',
       type = \<lparr> r3_value = ReadVarExpr ''Svc'', r3_type = ReadVarExpr ''Svc'' \<rparr>,
       internalType = ReadVarExpr ''Svc_1'',
       typeArgumentCount = 1,
       deps = ds,
       target = Injectable \<rparr>"

definition exampleDelegated ::
  "R3Deps \<Rightarrow> R3FactoryDelegateType \<Rightarrow> R3DelegatedFnOrClassMetadata" where
  "exampleDelegated ds kind =
     \<lparr> name = ''Svc'',
       type = \<lparr> r3_value = ReadVarExpr ''Svc'', r3_type = ReadVarExpr ''Svc'' \<rparr>,
       internalType = ReadVarExpr ''Svc_1'',
       typeArgumentCount = 1,
       deps = ds,
       target = Injectable,
       delegate = ReadVarExpr ''Impl'',
       delegateType = kind,
       delegateDeps = [plainDep (ReadVarExpr ''Dep'')] \<rparr>"

definition exampleConcrete :: "(nat, nat, nat, nat) Decorator" where
  "exampleConcrete = ConcreteDecorator ''Injectable'' 1 None 2 (Some [])"

definition exampleSynthetic :: "(nat, nat, nat, nat) Decorator" where
  "exampleSynthetic = SyntheticDecorator ''Injectable'' None None 3"

definition exampleExpressionMeta :: "R3Deps \<Rightarrow> R3ExpressionFactoryMetadata" where
  "exampleExpressionMeta ds =
     \<lparr> name = ''Svc'',
       type = \<lparr> r3_value = ReadVarExpr ''Svc'', r3_type = ReadVarExpr ''Svc'' \<rparr>,
       internalType = ReadVarExpr ''Svc_1'',
       typeArgumentCount = 1,
       deps = ds,
       target = Injectable,
       expression = ReadVarExpr ''useValue'' \<rparr>"




section \<open>Auxiliary facts\<close>

lemmas ast_defs = variable_def NULL_EXPR_def literal_def importExpr_def importExprWithParams_def
  expressionType_def callFn_def callFnPure_def setVar_def toStmt_def toDeclStmt_def ifStmt_def
  literalArr_def literalMap_def fn_def

lemmas example_defs = exampleInjectFlags_def exampleTypeWithParameters_def plainDep_def
  selfDep_def attributeDep_def unresolvedDep_def exampleMeta_def exampleDelegated_def

lemma truncate_fields:
  "name (R3ConstructorFactoryMetadata.truncate r) = name r"
  "type (R3ConstructorFactoryMetadata.truncate r) = type r"
  "internalType (R3ConstructorFactoryMetadata.truncate r) = internalType r"
  "typeArgumentCount (R3ConstructorFactoryMetadata.truncate r) = typeArgumentCount r"
  "deps (R3ConstructorFactoryMetadata.truncate r) = deps r"
  "target (R3ConstructorFactoryMetadata.truncate r) = target r"
  by (simp_all add: R3ConstructorFactoryMetadata.truncate_def)

lemma injectDependencies_length:
  "length (injectDependencies fl ds tgt) = length ds"
  by (simp add: injectDependencies_def)

lemma injectDependencies_nth:
  "i < length ds \<Longrightarrow>
     injectDependencies fl ds tgt ! i = compileInjectDependency fl (ds ! i) tgt i"
  by (simp add: injectDependencies_def nth_enumerate_eq)

text \<open>The three pushes of \<^verbatim>\<open>createCtorDepType\<close> keep exactly the true flags, in order.\<close>

lemma createCtorDepType_placeholder:
  "createCtorDepType dep = (if hasQualifier dep then Some (qualifierRecord dep) else None)"
  by (simp add: createCtorDepType_def hasQualifier_def qualifierRecord_def ast_defs)

lemma ctorDepsStep_placeholder:
  "ctorDepsStep dep (b, acc) = (b \<or> hasQualifier dep, acc @ [depPlaceholder dep])"
  by (simp add: ctorDepsStep_def createCtorDepType_placeholder depPlaceholder_def ast_defs)

lemma fold_ctorDepsStep:
  "fold ctorDepsStep ds (b, acc) =
     (b \<or> list_ex hasQualifier ds, acc @ map depPlaceholder ds)"
proof (induction ds arbitrary: b acc)
  case Nil
  show ?case by simp
next
  case (Cons d ds)
  show ?case by (simp add: ctorDepsStep_placeholder Cons.IH)
qed

lemma createCtorDepsType_array:
  "createCtorDepsType ds = (if list_ex hasQualifier ds then ctorDepsArray ds else NONE_TYPE)"
  by (simp add: createCtorDepsType_def fold_ctorDepsStep ctorDepsArray_def ast_defs)

lemma getInjectFn_not_inherited: "getInjectFn tgt \<noteq> R3_getInheritedFactory"
  by (cases tgt) simp_all

text \<open>
  A compiled dependency has a node of a given kind only where its token has one, when the
  nodes that the compiler itself makes are not of that kind.
\<close>

lemma compileInjectDependency_nodes:
  assumes "\<And>f args p. \<not> pe (InvokeFunctionExpr (ExternalExpr f None) args p)"
    and "\<not> pe (ExternalExpr R3_invalidFactoryDep None)"
    and "\<not> pe (ExternalExpr (getInjectFn tgt) None)"
    and "\<And>v. \<not> pe (LiteralExpr v)"
    and "case token d of None \<Rightarrow> True | Some e \<Rightarrow> nodesE pe (\<lambda>s. False) e = 0"
  shows "definedOr0 (map_option (nodesE pe (\<lambda>s. False))
            (compileInjectDependency fl d tgt i)) = 0"
  using assms
  by (simp add: compileInjectDependency_def ast_defs definedOr0_def Let_def
        split: option.splits)

lemma injectDependencies_nodes:
  assumes "\<And>f args p. \<not> pe (InvokeFunctionExpr (ExternalExpr f None) args p)"
    and "\<not> pe (ExternalExpr R3_invalidFactoryDep None)"
    and "\<not> pe (ExternalExpr (getInjectFn tgt) None)"
    and "\<And>v. \<not> pe (LiteralExpr v)"
    and "list_all (\<lambda>e. nodesE pe (\<lambda>s. False) e = 0) (tokens ds)"
  shows "sum_list (map definedOr0
           (map (map_option (nodesE pe (\<lambda>s. False))) (injectDependencies fl ds tgt))) = 0"
proof -
  have each: "case token d of None \<Rightarrow> True | Some e \<Rightarrow> nodesE pe (\<lambda>s. False) e = 0"
    if "d \<in> set ds" for d
    using assms(5) that by (auto simp add: tokens_def list_all_iff split: option.splits)
  have "definedOr0 (map_option (nodesE pe (\<lambda>s. False))
            (compileInjectDependency fl d tgt i)) = 0" if "d \<in> set ds" for d i
    using assms(1-4) each [OF that] by (rule compileInjectDependency_nodes)
  then show ?thesis
    by (auto simp add: injectDependencies_def in_set_enumerate_eq)
qed

lemma injectDependencies_refs:
  assumes "list_all (\<lambda>e. inheritedFactoryRefs e = 0) (tokens ds)"
  shows "sum_list (map definedOr0
           (map (map_option (nodesE isInheritedFactoryRef (\<lambda>s. False)))
              (injectDependencies fl ds tgt))) = 0"
  using assms unfolding inheritedFactoryRefs_def
  by (intro injectDependencies_nodes) (simp_all add: getInjectFn_not_inherited)

lemma injectDependencies_reads:
  assumes "list_all (\<lambda>e. readsOf v e = 0) (tokens ds)"
  shows "sum_list (map definedOr0
           (map (map_option (nodesE (isReadOf v) (\<lambda>s. False)))
              (injectDependencies fl ds tgt))) = 0"
  using assms unfolding readsOf_def
  by (intro injectDependencies_nodes) simp_all

lemma injectDependencies_writes:
  assumes "list_all (\<lambda>e. writesOf v e = 0) (tokens ds)"
  shows "sum_list (map definedOr0
           (map (map_option (nodesE (isWriteOf v) (\<lambda>s. False)))
              (injectDependencies fl ds tgt))) = 0"
  using assms unfolding writesOf_def
  by (intro injectDependencies_nodes) simp_all

lemma baseFactoryName_fresh:
  "baseFactoryName n \<noteq> ''t''" "baseFactoryName n \<noteq> ''r''"
  "''t'' \<noteq> baseFactoryName n" "''r'' \<noteq> baseFactoryName n"
  by (simp_all add: baseFactoryName_def)

text \<open>The tree that is emitted when \<^verbatim>\<open>deps\<close> is \<^verbatim>\<open>null\<close>, by variant.\<close>

lemma base_factory_tree:
  assumes "deps (common meta) = DepsNull"
  shows "compiled_expression (compileFactoryFunction fl twp meta) =
    (let m = common meta;
         memo = baseFactoryName (name m);
         typeToConstruct =
           (case meta of
              DelegatedFactory d \<Rightarrow> ReadVarExpr ''t''
            | _ \<Rightarrow> BinaryOperatorExpr Or (ReadVarExpr ''t'') (internalType m));
         conditional = (\<lambda>other.
           [DeclareVarStmt ''r'' (Some (LiteralExpr LitNull)),
            IfStmt (ReadVarExpr ''t'')
              [ExpressionStatement (WriteVarExpr ''r''
                 (InvokeFunctionExpr (ReadVarExpr memo) [Some typeToConstruct] False))]
              [ExpressionStatement (WriteVarExpr ''r'' other)]]);
         before =
           (case meta of
              ConstructorFactory c \<Rightarrow> []
            | DelegatedFactory d \<Rightarrow>
                conditional
                  (case delegateType d of
                     Class \<Rightarrow> InstantiateExpr (delegate d)
                                (injectDependencies fl (delegateDeps d) (target m))
                   | Function \<Rightarrow> InvokeFunctionExpr (delegate d)
                                (injectDependencies fl (delegateDeps d) (target m)) False)
            | ExpressionFactory e \<Rightarrow> conditional (expression e))
     in InvokeFunctionExpr
          (FunctionExpr []
             [DeclareVarStmt memo None,
              ReturnStatement
                (FunctionExpr [FnParam ''t'' DYNAMIC_TYPE]
                   (before @
                    [ReturnStatement
                       (InvokeFunctionExpr
                          (BinaryOperatorExpr Or (ReadVarExpr memo)
                             (WriteVarExpr memo
                                (InvokeFunctionExpr (ExternalExpr R3_getInheritedFactory None)
                                   [Some (internalType m)] False)))
                          [Some typeToConstruct] False)])
                   (Some INFERRED_TYPE) (Some (name m @ ''_Factory'')))]
             None None)
          [] True)"
  using assms
  by (cases meta)
     (simp_all add: compileFactoryFunction_def makeConditionalFactory_def ast_defs Let_def
        split: R3FactoryDelegateType.splits)

lemma base_factory_scopes:
  assumes "deps (common meta) = DepsNull"
  shows "map_option scopeNames
           (invokedClosure (compiled_expression (compileFactoryFunction fl twp meta)))
         = Some [baseFactoryName (name (common meta))]"
    and "map_option scopeNames
           (Option.bind
              (invokedClosure (compiled_expression (compileFactoryFunction fl twp meta)))
              returnedFunction)
         = Some (''t'' # (case meta of
                            ConstructorFactory c \<Rightarrow> []
                          | DelegatedFactory d \<Rightarrow> [''r'']
                          | ExpressionFactory e \<Rightarrow> [''r'']))"
    and "map_option (callsBareOnOverride (baseFactoryName (name (common meta))))
           (Option.bind
              (invokedClosure (compiled_expression (compileFactoryFunction fl twp meta)))
              returnedFunction)
         = Some (case meta of
                   ConstructorFactory c \<Rightarrow> False
                 | DelegatedFactory d \<Rightarrow> True
                 | ExpressionFactory e \<Rightarrow> True)"
  unfolding base_factory_tree [OF assms]
  by (cases meta; simp add: Let_def callsBareOnOverride_def)+

lemma base_factory_refs:
  assumes "deps (common meta) = DepsNull"
    and "list_all (\<lambda>e. inheritedFactoryRefs e = 0) (suppliedExpressions meta)"
  shows "inheritedFactoryRefs (compiled_expression (compileFactoryFunction fl twp meta)) = 1"
proof (cases meta)
  case (ConstructorFactory c)
  then show ?thesis
    using assms unfolding base_factory_tree [OF assms(1)]
    by (simp add: Let_def inheritedFactoryRefs_def definedOr0_def)
next
  case (DelegatedFactory d)
  have "list_all (\<lambda>e. inheritedFactoryRefs e = 0) (tokens (delegateDeps d))"
    using assms(2) DelegatedFactory by simp
  then have args: "sum_list (map definedOr0
           (map (map_option (nodesE isInheritedFactoryRef (\<lambda>s. False)))
              (injectDependencies fl (delegateDeps d) (target d)))) = 0"
    by (rule injectDependencies_refs)
  show ?thesis
    using assms DelegatedFactory args unfolding base_factory_tree [OF assms(1)]
    by (cases "delegateType d")
       (simp_all add: Let_def inheritedFactoryRefs_def definedOr0_def truncate_fields)
next
  case (ExpressionFactory e)
  then show ?thesis
    using assms unfolding base_factory_tree [OF assms(1)]
    by (simp add: Let_def inheritedFactoryRefs_def definedOr0_def truncate_fields)
qed

lemma base_factory_writes:
  assumes "deps (common meta) = DepsNull"
    and "list_all (\<lambda>e. writesOf (baseFactoryName (name (common meta))) e = 0)
           (suppliedExpressions meta)"
  shows "writesOf (baseFactoryName (name (common meta)))
           (compiled_expression (compileFactoryFunction fl twp meta)) = 1"
proof (cases meta)
  case (ConstructorFactory c)
  then show ?thesis
    using assms unfolding base_factory_tree [OF assms(1)]
    by (simp add: Let_def writesOf_def baseFactoryName_fresh definedOr0_def)
next
  case (DelegatedFactory d)
  have "list_all (\<lambda>e. writesOf (baseFactoryName (name d)) e = 0)
          (tokens (delegateDeps d))"
    using assms(2) DelegatedFactory by (simp add: truncate_fields)
  then have args: "sum_list (map definedOr0
           (map (map_option (nodesE (isWriteOf (baseFactoryName (name d))) (\<lambda>s. False)))
              (injectDependencies fl (delegateDeps d) (target d)))) = 0"
    by (rule injectDependencies_writes)
  show ?thesis
    using assms DelegatedFactory args unfolding base_factory_tree [OF assms(1)]
    by (cases "delegateType d")
       (simp_all add: Let_def writesOf_def baseFactoryName_fresh definedOr0_def truncate_fields)
next
  case (ExpressionFactory e)
  then show ?thesis
    using assms unfolding base_factory_tree [OF assms(1)]
    by (simp add: Let_def writesOf_def baseFactoryName_fresh definedOr0_def truncate_fields)
qed

lemma base_factory_reads:
  assumes "deps (common meta) = DepsNull"
    and "list_all (\<lambda>e. readsOf (baseFactoryName (name (common meta))) e = 0)
           (suppliedExpressions meta)"
  shows "readsOf (baseFactoryName (name (common meta)))
           (compiled_expression (compileFactoryFunction fl twp meta)) =
         (case meta of
            ConstructorFactory c \<Rightarrow> 1
          | DelegatedFactory d \<Rightarrow> 2
          | ExpressionFactory e \<Rightarrow> 2)"
proof (cases meta)
  case (ConstructorFactory c)
  then show ?thesis
    using assms unfolding base_factory_tree [OF assms(1)]
    by (simp add: Let_def readsOf_def baseFactoryName_fresh definedOr0_def)
next
  case (DelegatedFactory d)
  have "list_all (\<lambda>e. readsOf (baseFactoryName (name d)) e = 0)
          (tokens (delegateDeps d))"
    using assms(2) DelegatedFactory by (simp add: truncate_fields)
  then have args: "sum_list (map definedOr0
           (map (map_option (nodesE (isReadOf (baseFactoryName (name d))) (\<lambda>s. False)))
              (injectDependencies fl (delegateDeps d) (target d)))) = 0"
    by (rule injectDependencies_reads)
  show ?thesis
    using assms DelegatedFactory args unfolding base_factory_tree [OF assms(1)]
    by (cases "delegateType d")
       (simp_all add: Let_def readsOf_def baseFactoryName_fresh definedOr0_def truncate_fields)
next
  case (ExpressionFactory e)
  then show ?thesis
    using assms unfolding base_factory_tree [OF assms(1)]
    by (simp add: Let_def readsOf_def baseFactoryName_fresh definedOr0_def truncate_fields)
qed

section \<open>The claims\<close>

text \<open>
  Claim C1 (factory synthesis is total and every compiled dependency is a defined
  expression, also one with a token and an attribute name type). The source has no
  \<^verbatim>\<open>return\<close> for a dependency with a token and an attribute name type: there
  \<^verbatim>\<open>compileInjectDependency\<close> yields \<^verbatim>\<open>undefined\<close>, whatever the flags, the target and the
  index, and the factory of a constructor with that one dependency instantiates the type
  with an undefined argument.
\<close>

theorem compileInjectDependency_attribute_undefined:
  "compileInjectDependency fl
     \<lparr> token = Some tok, attributeNameType = Some a, optional = op, self = s, skipSelf = k \<rparr>
     tgt i = None
   \<and> compiled_expression
       (compileFactoryFunction fl twp
          (ConstructorFactory
             \<lparr> name = n, type = ty, internalType = it, typeArgumentCount = c,
               deps = DepsList
                 [\<lparr> token = Some tok, attributeNameType = Some a,
                    optional = op, self = s, skipSelf = k \<rparr>],
               target = tgt \<rparr>))
     = FunctionExpr [FnParam ''t'' DYNAMIC_TYPE]
         [ReturnStatement
            (InstantiateExpr (BinaryOperatorExpr Or (ReadVarExpr ''t'') it) [None])]
         (Some INFERRED_TYPE) (Some (n @ ''_Factory''))"
  by (simp add: compileInjectDependency_def compileFactoryFunction_def
        injectDependencies_def ast_defs)

theorem compileInjectDependency_attribute_undefined_witness:
  "compileInjectDependency exampleInjectFlags (attributeDep (ReadVarExpr ''Name'')) Directive 0
     = None
   \<and> compiled_expression
       (compileFactoryFunction exampleInjectFlags exampleTypeWithParameters
          (ConstructorFactory
             (exampleMeta (DepsList [attributeDep (ReadVarExpr ''Name'')]))))
     = FunctionExpr [FnParam ''t'' DYNAMIC_TYPE]
         [ReturnStatement
            (InstantiateExpr
               (BinaryOperatorExpr Or (ReadVarExpr ''t'') (ReadVarExpr ''Svc_1'')) [None])]
         (Some INFERRED_TYPE) (Some ''Svc_Factory'')"
proof -
  have "compileInjectDependency exampleInjectFlags (attributeDep (ReadVarExpr ''Name''))
          Directive 0 = None"
    using compileInjectDependency_attribute_undefined
            [of exampleInjectFlags "ReadVarExpr ''Name''" "ReadVarExpr ''string''"
                False False False Directive 0]
    unfolding attributeDep_def by (rule conjunct1)
  moreover have "compiled_expression
       (compileFactoryFunction exampleInjectFlags exampleTypeWithParameters
          (ConstructorFactory
             (exampleMeta (DepsList [attributeDep (ReadVarExpr ''Name'')]))))
     = FunctionExpr [FnParam ''t'' DYNAMIC_TYPE]
         [ReturnStatement
            (InstantiateExpr
               (BinaryOperatorExpr Or (ReadVarExpr ''t'') (ReadVarExpr ''Svc_1'')) [None])]
         (Some INFERRED_TYPE) (Some ''Svc_Factory'')"
    using compileInjectDependency_attribute_undefined
            [of exampleInjectFlags "ReadVarExpr ''Name''" "ReadVarExpr ''string''"
                False False False Injectable 0 exampleTypeWithParameters "''Svc''"
                "\<lparr> r3_value = ReadVarExpr ''Svc'', r3_type = ReadVarExpr ''Svc'' \<rparr>"
                "ReadVarExpr ''Svc_1''" 1]
    unfolding attributeDep_def exampleMeta_def by simp
  ultimately show ?thesis by (rule conjI)
qed

text \<open>
  Claim C2. With \<^verbatim>\<open>deps == 'invalid'\<close> and a metadata value that is neither delegated nor an
  expression factory, the emitted function has one statement, the call of the
  invalid-factory stub: the emitted tree has no instantiation node and no conditional
  statement, and no statement is emitted beside the function.
\<close>

theorem invalid_deps_stub_only:
  assumes "deps m = DepsInvalid"
  shows "compiled_expression (compileFactoryFunction fl twp (ConstructorFactory m)) =
           FunctionExpr [FnParam ''t'' DYNAMIC_TYPE]
             [ExpressionStatement
                (InvokeFunctionExpr (ExternalExpr R3_invalidFactory None) [] False)]
             (Some INFERRED_TYPE) (Some (name m @ ''_Factory''))
         \<and> nodesE isInstantiateExpr isIfStmt
             (compiled_expression (compileFactoryFunction fl twp (ConstructorFactory m))) = 0
         \<and> compiled_statements (compileFactoryFunction fl twp (ConstructorFactory m)) = []"
  using assms by (simp add: compileFactoryFunction_def ast_defs definedOr0_def)

theorem invalid_deps_stub_only_witness:
  "compiled_expression
     (compileFactoryFunction exampleInjectFlags exampleTypeWithParameters
        (ConstructorFactory (exampleMeta DepsInvalid))) =
     FunctionExpr [FnParam ''t'' DYNAMIC_TYPE]
       [ExpressionStatement
          (InvokeFunctionExpr (ExternalExpr R3_invalidFactory None) [] False)]
       (Some INFERRED_TYPE) (Some ''Svc_Factory'')
   \<and> nodesE isInstantiateExpr isIfStmt
       (compiled_expression
          (compileFactoryFunction exampleInjectFlags exampleTypeWithParameters
             (ConstructorFactory (exampleMeta DepsInvalid)))) = 0
   \<and> compiled_statements
       (compileFactoryFunction exampleInjectFlags exampleTypeWithParameters
          (ConstructorFactory (exampleMeta DepsInvalid))) = []"
proof -
  have d: "deps (exampleMeta DepsInvalid) = DepsInvalid"
    by (simp add: exampleMeta_def)
  have n: "name (exampleMeta DepsInvalid) @ ''_Factory'' = ''Svc_Factory''"
    by (simp add: exampleMeta_def)
  show ?thesis
    using invalid_deps_stub_only
            [OF d, of exampleInjectFlags exampleTypeWithParameters]
    unfolding n .
qed

text \<open>
  Claim C3 (with \<^verbatim>\<open>deps == null\<close> the factory resolves the base factory once through the
  memoizing expression, invokes the resolved base factory on the type to construct, and
  the memo variable belongs to an enclosing closure). For every variant the emitted
  expression is a pure call of a closure without parameters whose scope is the memo
  variable alone; the closure returns the factory function, whose own scope is \<^verbatim>\<open>t\<close>, and
  \<^verbatim>\<open>r\<close> for a delegated or an expression factory; the memo variable is neither \<^verbatim>\<open>t\<close> nor
  \<^verbatim>\<open>r\<close>. The last statement of the factory function returns the call, on the type to
  construct, of \<^verbatim>\<open>memo || (memo = getInheritedFactory(internalType))\<close>, the one resolution
  in the tree. For a constructor factory that statement is the whole body and the memo
  variable is called nowhere else. For a delegated or an expression factory the conditional
  on \<^verbatim>\<open>t\<close> stands before it, and its first branch calls the memo variable bare, before
  anything has resolved it; the variable \<^verbatim>\<open>r\<close> that the conditional assigns is not
  returned.
\<close>

theorem base_factory_memo_by_variant:
  assumes "deps (common meta) = DepsNull"
  shows "compiled_expression (compileFactoryFunction fl twp meta) =
    (let m = common meta;
         memo = baseFactoryName (name m);
         typeToConstruct =
           (case meta of
              DelegatedFactory d \<Rightarrow> ReadVarExpr ''t''
            | _ \<Rightarrow> BinaryOperatorExpr Or (ReadVarExpr ''t'') (internalType m));
         conditional = (\<lambda>other.
           [DeclareVarStmt ''r'' (Some (LiteralExpr LitNull)),
            IfStmt (ReadVarExpr ''t'')
              [ExpressionStatement (WriteVarExpr ''r''
                 (InvokeFunctionExpr (ReadVarExpr memo) [Some typeToConstruct] False))]
              [ExpressionStatement (WriteVarExpr ''r'' other)]]);
         before =
           (case meta of
              ConstructorFactory c \<Rightarrow> []
            | DelegatedFactory d \<Rightarrow>
                conditional
                  (case delegateType d of
                     Class \<Rightarrow> InstantiateExpr (delegate d)
                                (injectDependencies fl (delegateDeps d) (target m))
                   | Function \<Rightarrow> InvokeFunctionExpr (delegate d)
                                (injectDependencies fl (delegateDeps d) (target m)) False)
            | ExpressionFactory e \<Rightarrow> conditional (expression e))
     in InvokeFunctionExpr
          (FunctionExpr []
             [DeclareVarStmt memo None,
              ReturnStatement
                (FunctionExpr [FnParam ''t'' DYNAMIC_TYPE]
                   (before @
                    [ReturnStatement
                       (InvokeFunctionExpr
                          (BinaryOperatorExpr Or (ReadVarExpr memo)
                             (WriteVarExpr memo
                                (InvokeFunctionExpr (ExternalExpr R3_getInheritedFactory None)
                                   [Some (internalType m)] False)))
                          [Some typeToConstruct] False)])
                   (Some INFERRED_TYPE) (Some (name m @ ''_Factory'')))]
             None None)
          [] True)
    \<and> baseFactoryName (name (common meta)) \<noteq> ''t''
    \<and> baseFactoryName (name (common meta)) \<noteq> ''r''
    \<and> map_option scopeNames
         (invokedClosure (compiled_expression (compileFactoryFunction fl twp meta)))
       = Some [baseFactoryName (name (common meta))]
    \<and> map_option scopeNames
         (Option.bind
            (invokedClosure (compiled_expression (compileFactoryFunction fl twp meta)))
            returnedFunction)
       = Some (''t'' # (case meta of
                          ConstructorFactory c \<Rightarrow> []
                        | DelegatedFactory d \<Rightarrow> [''r'']
                        | ExpressionFactory e \<Rightarrow> [''r'']))
    \<and> map_option (callsBareOnOverride (baseFactoryName (name (common meta))))
         (Option.bind
            (invokedClosure (compiled_expression (compileFactoryFunction fl twp meta)))
            returnedFunction)
       = Some (case meta of
                 ConstructorFactory c \<Rightarrow> False
               | DelegatedFactory d \<Rightarrow> True
               | ExpressionFactory e \<Rightarrow> True)
    \<and> (list_all
          (\<lambda>e. inheritedFactoryRefs e = 0
              \<and> writesOf (baseFactoryName (name (common meta))) e = 0
              \<and> readsOf (baseFactoryName (name (common meta))) e = 0)
          (suppliedExpressions meta) \<longrightarrow>
        inheritedFactoryRefs (compiled_expression (compileFactoryFunction fl twp meta)) = 1
        \<and> writesOf (baseFactoryName (name (common meta)))
            (compiled_expression (compileFactoryFunction fl twp meta)) = 1
        \<and> readsOf (baseFactoryName (name (common meta)))
            (compiled_expression (compileFactoryFunction fl twp meta)) =
          (case meta of
             ConstructorFactory c \<Rightarrow> 1
           | DelegatedFactory d \<Rightarrow> 2
           | ExpressionFactory e \<Rightarrow> 2))"
proof (intro conjI impI)
  assume h: "list_all
          (\<lambda>e. inheritedFactoryRefs e = 0
              \<and> writesOf (baseFactoryName (name (common meta))) e = 0
              \<and> readsOf (baseFactoryName (name (common meta))) e = 0)
          (suppliedExpressions meta)"
  have h1: "list_all (\<lambda>e. inheritedFactoryRefs e = 0) (suppliedExpressions meta)"
    using h by (simp add: list_all_iff)
  have h2: "list_all (\<lambda>e. writesOf (baseFactoryName (name (common meta))) e = 0)
              (suppliedExpressions meta)"
    using h by (simp add: list_all_iff)
  have h3: "list_all (\<lambda>e. readsOf (baseFactoryName (name (common meta))) e = 0)
              (suppliedExpressions meta)"
    using h by (simp add: list_all_iff)
  show "inheritedFactoryRefs (compiled_expression (compileFactoryFunction fl twp meta)) = 1"
    using assms h1 by (rule base_factory_refs)
  show "writesOf (baseFactoryName (name (common meta)))
          (compiled_expression (compileFactoryFunction fl twp meta)) = 1"
    using assms h2 by (rule base_factory_writes)
  show "readsOf (baseFactoryName (name (common meta)))
          (compiled_expression (compileFactoryFunction fl twp meta)) =
        (case meta of
           ConstructorFactory c \<Rightarrow> 1
         | DelegatedFactory d \<Rightarrow> 2
         | ExpressionFactory e \<Rightarrow> 2)"
    using assms h3 by (rule base_factory_reads)
qed (rule base_factory_tree [OF assms] baseFactoryName_fresh base_factory_scopes [OF assms])+

theorem base_factory_memo_by_variant_witness:
  "compiled_expression
     (compileFactoryFunction exampleInjectFlags exampleTypeWithParameters
        (ConstructorFactory (exampleMeta DepsNull))) =
   InvokeFunctionExpr
     (FunctionExpr []
        [DeclareVarStmt (baseFactoryName ''Svc'') None,
         ReturnStatement
           (FunctionExpr [FnParam ''t'' DYNAMIC_TYPE]
              [ReturnStatement
                 (InvokeFunctionExpr
                    (BinaryOperatorExpr Or (ReadVarExpr (baseFactoryName ''Svc''))
                       (WriteVarExpr (baseFactoryName ''Svc'')
                          (InvokeFunctionExpr (ExternalExpr R3_getInheritedFactory None)
                             [Some (ReadVarExpr ''Svc_1'')] False)))
                    [Some (BinaryOperatorExpr Or (ReadVarExpr ''t'') (ReadVarExpr ''Svc_1''))]
                    False)]
              (Some INFERRED_TYPE) (Some ''Svc_Factory''))]
        None None)
     [] True
   \<and> inheritedFactoryRefs
       (compiled_expression
          (compileFactoryFunction exampleInjectFlags exampleTypeWithParameters
             (ConstructorFactory (exampleMeta DepsNull)))) = 1
   \<and> writesOf (baseFactoryName ''Svc'')
       (compiled_expression
          (compileFactoryFunction exampleInjectFlags exampleTypeWithParameters
             (ConstructorFactory (exampleMeta DepsNull)))) = 1
   \<and> readsOf (baseFactoryName ''Svc'')
       (compiled_expression
          (compileFactoryFunction exampleInjectFlags exampleTypeWithParameters
             (ConstructorFactory (exampleMeta DepsNull)))) = 1
   \<and> map_option scopeNames
       (Option.bind
          (invokedClosure
             (compiled_expression
                (compileFactoryFunction exampleInjectFlags exampleTypeWithParameters
                   (ConstructorFactory (exampleMeta DepsNull)))))
          returnedFunction) = Some [''t'']
   \<and> map_option (callsBareOnOverride (baseFactoryName ''Svc''))
       (Option.bind
          (invokedClosure
             (compiled_expression
                (compileFactoryFunction exampleInjectFlags exampleTypeWithParameters
                   (ConstructorFactory (exampleMeta DepsNull)))))
          returnedFunction) = Some False
   \<and> compiled_expression
       (compileFactoryFunction exampleInjectFlags exampleTypeWithParameters
          (ExpressionFactory (exampleExpressionMeta DepsNull))) =
     InvokeFunctionExpr
       (FunctionExpr []
          [DeclareVarStmt (baseFactoryName ''Svc'') None,
           ReturnStatement
             (FunctionExpr [FnParam ''t'' DYNAMIC_TYPE]
                [DeclareVarStmt ''r'' (Some (LiteralExpr LitNull)),
                 IfStmt (ReadVarExpr ''t'')
                   [ExpressionStatement (WriteVarExpr ''r''
                      (InvokeFunctionExpr (ReadVarExpr (baseFactoryName ''Svc''))
                         [Some (BinaryOperatorExpr Or (ReadVarExpr ''t'')
                                  (ReadVarExpr ''Svc_1''))] False))]
                   [ExpressionStatement (WriteVarExpr ''r'' (ReadVarExpr ''useValue''))],
                 ReturnStatement
                   (InvokeFunctionExpr
                      (BinaryOperatorExpr Or (ReadVarExpr (baseFactoryName ''Svc''))
                         (WriteVarExpr (baseFactoryName ''Svc'')
                            (InvokeFunctionExpr (ExternalExpr R3_getInheritedFactory None)
                               [Some (ReadVarExpr ''Svc_1'')] False)))
                      [Some (BinaryOperatorExpr Or (ReadVarExpr ''t'') (ReadVarExpr ''Svc_1''))]
                      False)]
                (Some INFERRED_TYPE) (Some ''Svc_Factory''))]
          None None)
       [] True
   \<and> map_option (callsBareOnOverride (baseFactoryName ''Svc''))
       (Option.bind
          (invokedClosure
             (compiled_expression
                (compileFactoryFunction exampleInjectFlags exampleTypeWithParameters
                   (ExpressionFactory (exampleExpressionMeta DepsNull)))))
          returnedFunction) = Some True
   \<and> readsOf (baseFactoryName ''Svc'')
       (compiled_expression
          (compileFactoryFunction exampleInjectFlags exampleTypeWithParameters
             (ExpressionFactory (exampleExpressionMeta DepsNull)))) = 2
   \<and> map_option (callsBareOnOverride (baseFactoryName ''Svc''))
       (Option.bind
          (invokedClosure
             (compiled_expression
                (compileFactoryFunction exampleInjectFlags exampleTypeWithParameters
                   (DelegatedFactory (exampleDelegated DepsNull Function)))))
          returnedFunction) = Some True
   \<and> map_option scopeNames
       (Option.bind
          (invokedClosure
             (compiled_expression
                (compileFactoryFunction exampleInjectFlags exampleTypeWithParameters
                   (DelegatedFactory (exampleDelegated DepsNull Function)))))
          returnedFunction) = Some [''t'', ''r'']"
proof -
  let ?c = "ConstructorFactory (exampleMeta DepsNull)"
  let ?e = "ExpressionFactory (exampleExpressionMeta DepsNull)"
  let ?d = "DelegatedFactory (exampleDelegated DepsNull Function)"
  have dc: "deps (common ?c) = DepsNull"
    by (simp add: exampleMeta_def)
  have de: "deps (common ?e) = DepsNull"
    by (simp add: exampleExpressionMeta_def truncate_fields)
  have dd: "deps (common ?d) = DepsNull"
    by (simp add: exampleDelegated_def truncate_fields)
  have f: "name (exampleMeta DepsNull) = ''Svc''"
          "internalType (exampleMeta DepsNull) = ReadVarExpr ''Svc_1''"
          "name (exampleExpressionMeta DepsNull) = ''Svc''"
          "internalType (exampleExpressionMeta DepsNull) = ReadVarExpr ''Svc_1''"
          "expression (exampleExpressionMeta DepsNull) = ReadVarExpr ''useValue''"
          "name (exampleDelegated DepsNull Function) = ''Svc''"
    by (simp_all add: exampleMeta_def exampleExpressionMeta_def exampleDelegated_def)
  have fresh: "''Svc_1'' \<noteq> baseFactoryName ''Svc''" "''useValue'' \<noteq> baseFactoryName ''Svc''"
    by (simp_all add: baseFactoryName_def)
  have uc: "list_all
          (\<lambda>e. inheritedFactoryRefs e = 0
              \<and> writesOf (baseFactoryName (name (common ?c))) e = 0
              \<and> readsOf (baseFactoryName (name (common ?c))) e = 0)
          (suppliedExpressions ?c)"
    by (simp add: f fresh inheritedFactoryRefs_def writesOf_def readsOf_def)
  have ue: "list_all
          (\<lambda>e. inheritedFactoryRefs e = 0
              \<and> writesOf (baseFactoryName (name (common ?e))) e = 0
              \<and> readsOf (baseFactoryName (name (common ?e))) e = 0)
          (suppliedExpressions ?e)"
    by (simp add: f fresh truncate_fields inheritedFactoryRefs_def writesOf_def readsOf_def)
  note c = base_factory_memo_by_variant
             [OF dc, of exampleInjectFlags exampleTypeWithParameters]
  note e = base_factory_memo_by_variant
             [OF de, of exampleInjectFlags exampleTypeWithParameters]
  note d = base_factory_memo_by_variant
             [OF dd, of exampleInjectFlags exampleTypeWithParameters]
  note c_rest = c [THEN conjunct2, THEN conjunct2, THEN conjunct2, THEN conjunct2]
  note e_rest = e [THEN conjunct2, THEN conjunct2, THEN conjunct2, THEN conjunct2]
  note d_rest = d [THEN conjunct2, THEN conjunct2, THEN conjunct2, THEN conjunct2]
  note c_counts = c_rest [THEN conjunct2, THEN conjunct2, THEN mp, OF uc]
  note e_counts = e_rest [THEN conjunct2, THEN conjunct2, THEN mp, OF ue]
  have c_tree: "compiled_expression
     (compileFactoryFunction exampleInjectFlags exampleTypeWithParameters ?c) =
   InvokeFunctionExpr
     (FunctionExpr []
        [DeclareVarStmt (baseFactoryName ''Svc'') None,
         ReturnStatement
           (FunctionExpr [FnParam ''t'' DYNAMIC_TYPE]
              [ReturnStatement
                 (InvokeFunctionExpr
                    (BinaryOperatorExpr Or (ReadVarExpr (baseFactoryName ''Svc''))
                       (WriteVarExpr (baseFactoryName ''Svc'')
                          (InvokeFunctionExpr (ExternalExpr R3_getInheritedFactory None)
                             [Some (ReadVarExpr ''Svc_1'')] False)))
                    [Some (BinaryOperatorExpr Or (ReadVarExpr ''t'') (ReadVarExpr ''Svc_1''))]
                    False)]
              (Some INFERRED_TYPE) (Some ''Svc_Factory''))]
        None None)
     [] True"
    using c [THEN conjunct1] by (simp add: f truncate_fields Let_def)
  have c_refs: "inheritedFactoryRefs
       (compiled_expression
          (compileFactoryFunction exampleInjectFlags exampleTypeWithParameters ?c)) = 1"
    using c_counts by (rule conjunct1)
  have c_writes: "writesOf (baseFactoryName ''Svc'')
       (compiled_expression
          (compileFactoryFunction exampleInjectFlags exampleTypeWithParameters ?c)) = 1"
    using c_counts [THEN conjunct2, THEN conjunct1] by (simp add: f)
  have c_reads: "readsOf (baseFactoryName ''Svc'')
       (compiled_expression
          (compileFactoryFunction exampleInjectFlags exampleTypeWithParameters ?c)) = 1"
    using c_counts [THEN conjunct2, THEN conjunct2] by (simp add: f)
  have c_scope: "map_option scopeNames
       (Option.bind
          (invokedClosure
             (compiled_expression
                (compileFactoryFunction exampleInjectFlags exampleTypeWithParameters ?c)))
          returnedFunction) = Some [''t'']"
    using c_rest [THEN conjunct1] by simp
  have c_bare: "map_option (callsBareOnOverride (baseFactoryName ''Svc''))
       (Option.bind
          (invokedClosure
             (compiled_expression
                (compileFactoryFunction exampleInjectFlags exampleTypeWithParameters ?c)))
          returnedFunction) = Some False"
    using c_rest [THEN conjunct2, THEN conjunct1] by (simp add: f)
  have e_tree: "compiled_expression
       (compileFactoryFunction exampleInjectFlags exampleTypeWithParameters ?e) =
     InvokeFunctionExpr
       (FunctionExpr []
          [DeclareVarStmt (baseFactoryName ''Svc'') None,
           ReturnStatement
             (FunctionExpr [FnParam ''t'' DYNAMIC_TYPE]
                [DeclareVarStmt ''r'' (Some (LiteralExpr LitNull)),
                 IfStmt (ReadVarExpr ''t'')
                   [ExpressionStatement (WriteVarExpr ''r''
                      (InvokeFunctionExpr (ReadVarExpr (baseFactoryName ''Svc''))
                         [Some (BinaryOperatorExpr Or (ReadVarExpr ''t'')
                                  (ReadVarExpr ''Svc_1''))] False))]
                   [ExpressionStatement (WriteVarExpr ''r'' (ReadVarExpr ''useValue''))],
                 ReturnStatement
                   (InvokeFunctionExpr
                      (BinaryOperatorExpr Or (ReadVarExpr (baseFactoryName ''Svc''))
                         (WriteVarExpr (baseFactoryName ''Svc'')
                            (InvokeFunctionExpr (ExternalExpr R3_getInheritedFactory None)
                               [Some (ReadVarExpr ''Svc_1'')] False)))
                      [Some (BinaryOperatorExpr Or (ReadVarExpr ''t'') (ReadVarExpr ''Svc_1''))]
                      False)]
                (Some INFERRED_TYPE) (Some ''Svc_Factory''))]
          None None)
       [] True"
    using e [THEN conjunct1] by (simp add: f truncate_fields Let_def)
  have e_bare: "map_option (callsBareOnOverride (baseFactoryName ''Svc''))
       (Option.bind
          (invokedClosure
             (compiled_expression
                (compileFactoryFunction exampleInjectFlags exampleTypeWithParameters ?e)))
          returnedFunction) = Some True"
    using e_rest [THEN conjunct2, THEN conjunct1] by (simp add: f truncate_fields)
  have e_reads: "readsOf (baseFactoryName ''Svc'')
       (compiled_expression
          (compileFactoryFunction exampleInjectFlags exampleTypeWithParameters ?e)) = 2"
    using e_counts [THEN conjunct2, THEN conjunct2] by (simp add: f truncate_fields)
  have d_bare: "map_option (callsBareOnOverride (baseFactoryName ''Svc''))
       (Option.bind
          (invokedClosure
             (compiled_expression
                (compileFactoryFunction exampleInjectFlags exampleTypeWithParameters ?d)))
          returnedFunction) = Some True"
    using d_rest [THEN conjunct2, THEN conjunct1] by (simp add: f truncate_fields)
  have d_scope: "map_option scopeNames
       (Option.bind
          (invokedClosure
             (compiled_expression
                (compileFactoryFunction exampleInjectFlags exampleTypeWithParameters ?d)))
          returnedFunction) = Some [''t'', ''r'']"
    using d_rest [THEN conjunct1] by simp
  from c_tree c_refs c_writes c_reads c_scope c_bare e_tree e_bare e_reads d_bare d_scope
  show ?thesis
    by (intro conjI)
qed

text \<open>
  Claim C4, amended. For a delegated factory whose \<^verbatim>\<open>deps\<close> is not \<^verbatim>\<open>null\<close>, the emitted
  function declares \<^verbatim>\<open>r\<close>, assigns it under a conditional on the override parameter
  \<^verbatim>\<open>t\<close> and returns it. When \<^verbatim>\<open>deps\<close> is a list, the first branch assigns the
  instantiation of \<^verbatim>\<open>t\<close> alone (never of the internal type) with the compiled
  dependencies; when \<^verbatim>\<open>deps\<close> is \<^verbatim>\<open>'invalid'\<close>, the first branch is the call of the
  invalid-factory stub. The other branch assigns the delegate call, an instantiation for
  a delegate of kind \<open>Class\<close> and an invocation for one of kind \<open>Function\<close>, with the
  delegate's own dependencies compiled.
\<close>

theorem delegated_factory_conditional:
  assumes "deps d \<noteq> DepsNull"
  shows "compiled_expression (compileFactoryFunction fl twp (DelegatedFactory d)) =
    FunctionExpr [FnParam ''t'' DYNAMIC_TYPE]
      [DeclareVarStmt ''r'' (Some (LiteralExpr LitNull)),
       IfStmt (ReadVarExpr ''t'')
         [case deps d of
            DepsList ds \<Rightarrow>
              ExpressionStatement (WriteVarExpr ''r''
                (InstantiateExpr (ReadVarExpr ''t'') (injectDependencies fl ds (target d))))
          | DepsInvalid \<Rightarrow>
              ExpressionStatement
                (InvokeFunctionExpr (ExternalExpr R3_invalidFactory None) [] False)
          | DepsNull \<Rightarrow>
              ExpressionStatement
                (InvokeFunctionExpr (ExternalExpr R3_invalidFactory None) [] False)]
         [ExpressionStatement (WriteVarExpr ''r''
            (case delegateType d of
               Class \<Rightarrow>
                 InstantiateExpr (delegate d) (injectDependencies fl (delegateDeps d) (target d))
             | Function \<Rightarrow>
                 InvokeFunctionExpr (delegate d)
                   (injectDependencies fl (delegateDeps d) (target d)) False))],
       ReturnStatement (ReadVarExpr ''r'')]
      (Some INFERRED_TYPE) (Some (name d @ ''_Factory''))
    \<and> selectsDirectCtorOnOverride
        (compiled_expression (compileFactoryFunction fl twp (DelegatedFactory d)))
      = (case deps d of DepsList ds \<Rightarrow> True | DepsInvalid \<Rightarrow> False | DepsNull \<Rightarrow> False)"
  using assms
  by (cases "deps d")
     (simp_all add: compileFactoryFunction_def makeConditionalFactory_def ast_defs Let_def
        truncate_fields selectsDirectCtorOnOverride_def split: R3FactoryDelegateType.splits)

theorem delegated_factory_conditional_witness:
  "compiled_expression
     (compileFactoryFunction exampleInjectFlags exampleTypeWithParameters
        (DelegatedFactory (exampleDelegated (DepsList [selfDep (ReadVarExpr ''A'')]) Class))) =
    FunctionExpr [FnParam ''t'' DYNAMIC_TYPE]
      [DeclareVarStmt ''r'' (Some (LiteralExpr LitNull)),
       IfStmt (ReadVarExpr ''t'')
         [ExpressionStatement (WriteVarExpr ''r''
            (InstantiateExpr (ReadVarExpr ''t'')
               [Some (InvokeFunctionExpr (ExternalExpr R3_inject None)
                        [Some (ReadVarExpr ''A''), Some (LiteralExpr (LitNumber 2))] False)]))]
         [ExpressionStatement (WriteVarExpr ''r''
            (InstantiateExpr (ReadVarExpr ''Impl'')
               [Some (InvokeFunctionExpr (ExternalExpr R3_inject None)
                        [Some (ReadVarExpr ''Dep'')] False)]))],
       ReturnStatement (ReadVarExpr ''r'')]
      (Some INFERRED_TYPE) (Some ''Svc_Factory'')
   \<and> selectsDirectCtorOnOverride
       (compiled_expression
         (compileFactoryFunction exampleInjectFlags exampleTypeWithParameters
            (DelegatedFactory (exampleDelegated (DepsList [selfDep (ReadVarExpr ''A'')]) Class))))"
proof -
  let ?d = "exampleDelegated (DepsList [selfDep (ReadVarExpr ''A'')]) Class"
  have d: "deps ?d \<noteq> DepsNull"
    by (simp add: exampleDelegated_def)
  have f: "deps ?d = DepsList [selfDep (ReadVarExpr ''A'')]" "target ?d = Injectable"
          "delegateType ?d = Class" "delegate ?d = ReadVarExpr ''Impl''"
          "delegateDeps ?d = [plainDep (ReadVarExpr ''Dep'')]" "name ?d = ''Svc''"
    by (simp_all add: exampleDelegated_def)
  have a: "injectDependencies exampleInjectFlags [selfDep (ReadVarExpr ''A'')] Injectable =
             [Some (InvokeFunctionExpr (ExternalExpr R3_inject None)
                      [Some (ReadVarExpr ''A''), Some (LiteralExpr (LitNumber 2))] False)]"
    by (simp add: injectDependencies_def compileInjectDependency_def ast_defs example_defs)
  have b: "injectDependencies exampleInjectFlags [plainDep (ReadVarExpr ''Dep'')] Injectable =
             [Some (InvokeFunctionExpr (ExternalExpr R3_inject None)
                      [Some (ReadVarExpr ''Dep'')] False)]"
    by (simp add: injectDependencies_def compileInjectDependency_def ast_defs example_defs)
  show ?thesis
    using delegated_factory_conditional
            [OF d, of exampleInjectFlags exampleTypeWithParameters]
    by (simp add: f a b selectsDirectCtorOnOverride_def)
qed

text \<open>
  Claim C4 as stated fails when \<^verbatim>\<open>deps\<close> is \<^verbatim>\<open>'invalid'\<close>: the branch taken when the
  override parameter is supplied does not assign a direct-constructor expression.
\<close>

theorem delegated_invalid_deps_counterexample:
  "\<not> selectsDirectCtorOnOverride
       (compiled_expression
          (compileFactoryFunction exampleInjectFlags exampleTypeWithParameters
             (DelegatedFactory (exampleDelegated DepsInvalid Class))))"
  by (simp add: compileFactoryFunction_def makeConditionalFactory_def ast_defs Let_def
        truncate_fields selectsDirectCtorOnOverride_def exampleDelegated_def)

text \<open>
  Claim C5. A dependency with a token and no attribute name type: with the qualifiers
  self alone, the injection call has two arguments, the token and the literal of the
  flags, which is the member \<open>Self\<close> when the default mask is empty and \<open>Self\<close> is not; with
  no qualifier at all, the call has the token as its only argument, whatever the members
  of \<^verbatim>\<open>InjectFlags\<close> are.
\<close>

theorem self_flag_bitmask_or_none:
  "(Default fl = 0 \<and> Self fl \<noteq> 0 \<longrightarrow>
      compileInjectDependency fl
        \<lparr> token = Some tok, attributeNameType = None,
          optional = False, self = True, skipSelf = False \<rparr> tgt i
      = Some (InvokeFunctionExpr (ExternalExpr (getInjectFn tgt) None)
                [Some tok, Some (LiteralExpr (LitNumber (sint (Self fl))))] False))
   \<and> compileInjectDependency fl
        \<lparr> token = Some tok, attributeNameType = None,
          optional = False, self = False, skipSelf = False \<rparr> tgt i
      = Some (InvokeFunctionExpr (ExternalExpr (getInjectFn tgt) None) [Some tok] False)"
  by (simp add: compileInjectDependency_def ast_defs)

theorem self_flag_bitmask_or_none_witness:
  "compileInjectDependency exampleInjectFlags (selfDep (ReadVarExpr ''T1'')) Directive 0
     = Some (InvokeFunctionExpr (ExternalExpr R3_directiveInject None)
               [Some (ReadVarExpr ''T1''), Some (LiteralExpr (LitNumber 2))] False)
   \<and> compileInjectDependency exampleInjectFlags (plainDep (ReadVarExpr ''T1'')) Directive 0
     = Some (InvokeFunctionExpr (ExternalExpr R3_directiveInject None)
               [Some (ReadVarExpr ''T1'')] False)"
proof -
  have fl: "Default exampleInjectFlags = 0 \<and> Self exampleInjectFlags \<noteq> 0"
    by (simp add: exampleInjectFlags_def)
  have s: "sint (Self exampleInjectFlags) = 2"
    by (simp add: exampleInjectFlags_def)
  show ?thesis
    using self_flag_bitmask_or_none
            [of exampleInjectFlags "ReadVarExpr ''T1''" Directive 0] fl
    by (simp add: s selfDep_def plainDep_def)
qed

text \<open>
  Claim C6. The compiled arguments are as many as the dependencies and the argument at
  index \<open>i\<close> is the compilation of the dependency at index \<open>i\<close> with that index, whatever
  the other dependencies are; when its token is null it is the call of the
  invalid-factory-dependency stub on the literal \<open>i\<close>.
\<close>

theorem null_token_stub_at_index:
  assumes "i < length ds"
  shows "length (injectDependencies fl ds tgt) = length ds
       \<and> injectDependencies fl ds tgt ! i = compileInjectDependency fl (ds ! i) tgt i
       \<and> (token (ds ! i) = None \<longrightarrow>
            injectDependencies fl ds tgt ! i =
              Some (InvokeFunctionExpr (ExternalExpr R3_invalidFactoryDep None)
                      [Some (LiteralExpr (LitNumber (int i)))] False))"
  using assms
  by (simp add: injectDependencies_length injectDependencies_nth
        compileInjectDependency_def ast_defs)

theorem null_token_stub_at_index_witness:
  "injectDependencies exampleInjectFlags
       [plainDep (ReadVarExpr ''A''), attributeDep (ReadVarExpr ''B''), unresolvedDep]
       Injectable ! 2 =
     Some (InvokeFunctionExpr (ExternalExpr R3_invalidFactoryDep None)
             [Some (LiteralExpr (LitNumber 2))] False)"
proof -
  let ?ds = "[plainDep (ReadVarExpr ''A''), attributeDep (ReadVarExpr ''B''), unresolvedDep]"
  have i: "2 < length ?ds"
    by simp
  have t: "token (?ds ! 2) = None"
    by (simp add: unresolvedDep_def)
  have "injectDependencies exampleInjectFlags ?ds Injectable ! 2 =
          Some (InvokeFunctionExpr (ExternalExpr R3_invalidFactoryDep None)
                  [Some (LiteralExpr (LitNumber (int 2)))] False)"
    using null_token_stub_at_index [OF i, of exampleInjectFlags Injectable] t
    by blast
  then show ?thesis
    by simp
qed

text \<open>
  Claim C7 (for every dependency with a token, the injection function is chosen by the
  target alone). Without an attribute name type the compiled dependency calls the function
  that \<^verbatim>\<open>getInjectFn\<close> gives for the target: the directive-scoped one for a directive, a
  component or a pipe, the generic one for an injectable or a module. With the same token
  and an attribute name type, nothing is called for any target: the compiled dependency is
  \<^verbatim>\<open>undefined\<close>.
\<close>

theorem attribute_dependency_no_entry_point:
  "injectionEntryPoint
     (compileInjectDependency fl
        \<lparr> token = Some tok, attributeNameType = Some a,
          optional = op, self = s, skipSelf = k \<rparr> tgt i) = None
   \<and> injectionEntryPoint
       (compileInjectDependency fl
          \<lparr> token = Some tok, attributeNameType = None,
            optional = op, self = s, skipSelf = k \<rparr> tgt i) = Some (getInjectFn tgt)
   \<and> getInjectFn tgt =
       (case tgt of
          Directive \<Rightarrow> R3_directiveInject
        | Component \<Rightarrow> R3_directiveInject
        | Injectable \<Rightarrow> R3_inject
        | Pipe \<Rightarrow> R3_directiveInject
        | NgModule \<Rightarrow> R3_inject)"
  by (cases tgt) (simp_all add: compileInjectDependency_def ast_defs Let_def)

theorem attribute_dependency_no_entry_point_witness:
  "injectionEntryPoint
     (compileInjectDependency exampleInjectFlags (attributeDep (ReadVarExpr ''T1'')) Pipe 0)
     = None
   \<and> injectionEntryPoint
       (compileInjectDependency exampleInjectFlags (plainDep (ReadVarExpr ''T1'')) Pipe 0)
     = Some R3_directiveInject"
  using attribute_dependency_no_entry_point
          [of exampleInjectFlags "ReadVarExpr ''T1''" "ReadVarExpr ''string''"
              False False False Pipe 0]
  by (simp add: attributeDep_def plainDep_def)

text \<open>
  Claim C8, amended. The declared type is the factory declaration with two type
  parameters: \<^verbatim>\<open>typeWithParameters\<close> of the constructed type and its argument count, and the
  constructor dependency type. The latter is the array that mirrors the dependency list
  (a record of the true flags, in the order optional, self, skipSelf, for a dependency
  with a qualifier; a null placeholder for one without) only when \<^verbatim>\<open>deps\<close> is a list in
  which some dependency has a qualifier; otherwise it is the none type. No record is
  empty.
\<close>

theorem factory_type_ctor_deps:
  "compiled_type (compileFactoryFunction fl twp meta) =
     ExpressionType
       (ExternalExpr R3_FactoryDeclaration
          (Some [twp (r3_type (type (common meta))) (typeArgumentCount (common meta)),
                 case deps (common meta) of
                   DepsList ds \<Rightarrow>
                     if list_ex hasQualifier ds then ctorDepsArray ds else NONE_TYPE
                 | DepsInvalid \<Rightarrow> NONE_TYPE
                 | DepsNull \<Rightarrow> NONE_TYPE]))
       None
   \<and> (hasQualifier dep \<longrightarrow> qualifierRecord dep \<noteq> LiteralMapExpr [])"
proof -
  have "qualifierRecord dep \<noteq> LiteralMapExpr []" if "hasQualifier dep"
    using that by (auto simp add: hasQualifier_def qualifierRecord_def)
  then show ?thesis
    by (cases "deps (common meta)")
       (simp_all add: compileFactoryFunction_def createFactoryType_def
          createCtorDepsType_array ast_defs Let_def split: prod.splits)
qed

theorem factory_type_ctor_deps_witness:
  "compiled_type
     (compileFactoryFunction exampleInjectFlags exampleTypeWithParameters
        (ConstructorFactory
           (exampleMeta (DepsList [plainDep (ReadVarExpr ''A''), selfDep (ReadVarExpr ''B'')])))) =
     ExpressionType
       (ExternalExpr R3_FactoryDeclaration
          (Some [ExpressionType (ReadVarExpr ''Svc'') (Some [DYNAMIC_TYPE]),
                 ExpressionType
                   (LiteralArrayExpr
                      [LiteralExpr LitNull,
                       LiteralMapExpr
                         [LiteralMapEntry ''self'' (LiteralExpr (LitBool True)) False]])
                   None]))
       None"
proof -
  let ?ds = "[plainDep (ReadVarExpr ''A''), selfDep (ReadVarExpr ''B'')]"
  have m: "type (exampleMeta (DepsList ?ds)) =
             \<lparr> r3_value = ReadVarExpr ''Svc'', r3_type = ReadVarExpr ''Svc'' \<rparr>"
          "typeArgumentCount (exampleMeta (DepsList ?ds)) = 1"
          "deps (exampleMeta (DepsList ?ds)) = DepsList ?ds"
    by (simp_all add: exampleMeta_def)
  have a: "ctorDepsArray ?ds =
             ExpressionType
               (LiteralArrayExpr
                  [LiteralExpr LitNull,
                   LiteralMapExpr
                     [LiteralMapEntry ''self'' (LiteralExpr (LitBool True)) False]])
               None"
    by (simp add: ctorDepsArray_def depPlaceholder_def hasQualifier_def qualifierRecord_def
          plainDep_def selfDep_def)
  have h: "hasQualifier (plainDep (ReadVarExpr ''A'')) = False"
          "hasQualifier (selfDep (ReadVarExpr ''B'')) = True"
    by (simp_all add: hasQualifier_def plainDep_def selfDep_def)
  have t: "exampleTypeWithParameters (ReadVarExpr ''Svc'') (Suc 0) =
             ExpressionType (ReadVarExpr ''Svc'') (Some [DYNAMIC_TYPE])"
    by (simp add: exampleTypeWithParameters_def)
  show ?thesis
    using factory_type_ctor_deps
            [of exampleInjectFlags exampleTypeWithParameters
                "ConstructorFactory (exampleMeta (DepsList ?ds))" "selfDep (ReadVarExpr ''B'')"]
    by (simp add: m a h t)
qed

text \<open>
  Claim C8 as stated fails on a constructor whose only dependency has no qualifier: the
  constructor dependency type is the none type, not an array with a null placeholder.
\<close>

theorem unqualified_deps_no_array_counterexample:
  "compiled_type
     (compileFactoryFunction exampleInjectFlags exampleTypeWithParameters
        (ConstructorFactory (exampleMeta (DepsList [plainDep (ReadVarExpr ''A'')])))) \<noteq>
     ExpressionType
       (ExternalExpr R3_FactoryDeclaration
          (Some [exampleTypeWithParameters (ReadVarExpr ''Svc'') 1,
                 ctorDepsArray [plainDep (ReadVarExpr ''A'')]]))
       None"
  by (simp add: compileFactoryFunction_def createFactoryType_def createCtorDepsType_array
        ast_defs Let_def exampleMeta_def hasQualifier_def plainDep_def ctorDepsArray_def)




text \<open>
  Claim C10. \<^verbatim>\<open>Decorator.nodeForError\<close> returns a node for every decorator: the node of a
  concrete decorator, the node a synthetic decorator was synthesized for.
\<close>

theorem nodeForError_total:
  "nodeForError d =
     (case d of
        ConcreteDecorator n i imp nd a \<Rightarrow> Some nd
      | SyntheticDecorator n imp a s \<Rightarrow> Some s)
   \<and> nodeForError d \<noteq> None"
  by (cases d) (simp_all add: nodeForError_def)

theorem nodeForError_total_witness:
  "nodeForError exampleConcrete = Some 2 \<and> nodeForError exampleSynthetic = Some 3"
  using nodeForError_total [of exampleConcrete] nodeForError_total [of exampleSynthetic]
  by (simp add: exampleConcrete_def exampleSynthetic_def)

end
